theory Spec2Isabelle
  imports Main "HOL-Library.Word"
begin

section \<open>Single-precision values\<close>

text \<open>
  The kernel and the orchestrator of \<^verbatim>\<open>loop_coalesce.cpp\<close> compute on C++ \<^verbatim>\<open>float\<close>.
  A \<^verbatim>\<open>float\<close> is modelled as an IEEE 754 binary32 datum: a sign, eight bits of biased
  exponent and twenty-three bits of fraction. Arithmetic rounds to nearest, ties to even.
  Every NaN an operation produces is the one quiet NaN \<open>qNaN\<close>: payloads are not tracked.
  Each product and each sum is rounded on its own, as the C++ expression
  \<^verbatim>\<open>sum += a[i][k] * b[k][j]\<close> reads.
\<close>

datatype float = Float (fsign: bool) (fexp: "8 word") (ffrac: "23 word")

definition zero_f :: float where
  "zero_f = Float False 0 0"

definition one_f :: float where
  "one_f = Float False 127 0"

definition qNaN :: float where
  "qNaN = Float False 255 (2 ^ 22)"

definition is_nan :: "float \<Rightarrow> bool" where
  "is_nan x \<longleftrightarrow> fexp x = 255 \<and> ffrac x \<noteq> 0"

definition is_inf :: "float \<Rightarrow> bool" where
  "is_inf x \<longleftrightarrow> fexp x = 255 \<and> ffrac x = 0"

definition is_zero :: "float \<Rightarrow> bool" where
  "is_zero x \<longleftrightarrow> fexp x = 0 \<and> ffrac x = 0"

text \<open>
  A finite datum stands for \<open>\<plusminus> significand * 2 ^ scale\<close>; subnormals share the scale
  \<open>-149\<close> of the smallest normal binade.
\<close>

definition significand :: "float \<Rightarrow> nat" where
  "significand x = (if fexp x = 0 then unat (ffrac x) else 2 ^ 23 + unat (ffrac x))"

definition scale :: "float \<Rightarrow> int" where
  "scale x = (if fexp x = 0 then - 149 else int (unat (fexp x)) - 150)"

fun bit_len :: "nat \<Rightarrow> nat" where
  "bit_len n = (if n = 0 then 0 else Suc (bit_len (n div 2)))"

text \<open>Dropping the low \<open>d\<close> bits of \<open>M\<close>, to nearest, ties to even.\<close>

definition rne_shift :: "nat \<Rightarrow> nat \<Rightarrow> nat" where
  "rne_shift M d =
     (let m = M div 2 ^ d; r = M mod 2 ^ d; h = 2 ^ (d - 1)
      in if h < r \<or> (r = h \<and> odd m) then m + 1 else m)"

text \<open>
  \<open>round_float s M E\<close> is the binary32 datum nearest to \<open>\<plusminus> M * 2 ^ E\<close>: the unit in the
  last place is \<open>2 ^ q\<close>, at least \<open>2 ^ -149\<close>; a significand that rounds up to \<open>2 ^ 24\<close>
  moves to the next binade, and an exponent beyond the largest finite one gives infinity.
\<close>

definition round_float :: "bool \<Rightarrow> nat \<Rightarrow> int \<Rightarrow> float" where
  "round_float s M E =
     (if M = 0 then Float s 0 0
      else
        let q = max (E + int (bit_len M) - 24) (- 149);
            m = (if q \<le> E then M * 2 ^ nat (E - q) else rne_shift M (nat (q - E)));
            m' = (if m = 2 ^ 24 then 2 ^ 23 else m);
            q' = (if m = 2 ^ 24 then q + 1 else q)
        in if m' < 2 ^ 23 then Float s 0 (of_nat m')
           else if 105 \<le> q' then Float s 255 0
           else Float s (of_int (q' + 150)) (of_nat (m' - 2 ^ 23)))"

definition signed_sig :: "float \<Rightarrow> int" where
  "signed_sig x = (if fsign x then - int (significand x) else int (significand x))"

definition fadd :: "float \<Rightarrow> float \<Rightarrow> float" where
  "fadd x y =
     (if is_nan x \<or> is_nan y then qNaN
      else if is_inf x then (if is_inf y \<and> fsign x \<noteq> fsign y then qNaN else x)
      else if is_inf y then y
      else
        let e = min (scale x) (scale y);
            t = signed_sig x * 2 ^ nat (scale x - e) + signed_sig y * 2 ^ nat (scale y - e)
        in if t = 0 then Float (fsign x \<and> fsign y) 0 0
           else round_float (t < 0) (nat \<bar>t\<bar>) e)"

definition fmul :: "float \<Rightarrow> float \<Rightarrow> float" where
  "fmul x y =
     (if is_nan x \<or> is_nan y then qNaN
      else if is_inf x \<or> is_inf y then
        (if is_zero x \<or> is_zero y then qNaN else Float (fsign x \<noteq> fsign y) 255 0)
      else round_float (fsign x \<noteq> fsign y) (significand x * significand y) (scale x + scale y))"

text \<open>The comparison \<^verbatim>\<open>!=\<close> of C++: a NaN differs from everything, the two zeros are equal.\<close>

definition fneq :: "float \<Rightarrow> float \<Rightarrow> bool" where
  "fneq x y \<longleftrightarrow> is_nan x \<or> is_nan y \<or> (x \<noteq> y \<and> \<not> (is_zero x \<and> is_zero y))"

text \<open>
  The conversion of a \<^verbatim>\<open>size_t\<close> to \<^verbatim>\<open>float\<close>. Every \<^verbatim>\<open>size_t\<close> of the program is
  at most 16, so the counters are natural numbers and no wrap-around is written.
\<close>

definition float_of_size_t :: "nat \<Rightarrow> float" where
  "float_of_size_t n = round_float False n 0"


section \<open>Loops\<close>

definition kNumRows :: nat where
  "kNumRows = 4"

definition kNumCols :: nat where
  "kNumCols = 4"

definition kNumElements :: nat where
  "kNumElements = kNumRows * kNumCols"

text \<open>
  An access to a \<^verbatim>\<open>std::vector\<close> or to an accessor beyond its size is undefined in C++;
  the model makes it the result \<open>None\<close> of the loop body that performs it, and a loop
  stops at the first body that fails.
\<close>

fun for_each :: "nat list \<Rightarrow> (nat \<Rightarrow> 's \<Rightarrow> 's option) \<Rightarrow> 's \<Rightarrow> 's option" where
  "for_each [] body s = Some s"
| "for_each (n # ns) body s =
     (case body n s of None \<Rightarrow> None | Some s' \<Rightarrow> for_each ns body s')"

text \<open>
  The nest as the source writes it:
  \<^verbatim>\<open>for (size_t i = 0; i < rows; ++i) for (size_t j = 0; j < cols; ++j) body(i, j)\<close>.
\<close>

definition nested_loop ::
  "nat \<Rightarrow> nat \<Rightarrow> (nat \<Rightarrow> nat \<Rightarrow> 's \<Rightarrow> 's option) \<Rightarrow> 's \<Rightarrow> 's option" where
  "nested_loop rows cols body = for_each [0..<rows] (\<lambda>i. for_each [0..<cols] (body i))"

text \<open>
  Modelled from the spec: the loop that the attribute
  \<^verbatim>\<open>[[intel::loop_coalesce(coalesce_factor)]]\<close> asks for. The source only carries the
  attribute on the nest; the merged loop is built by the compiler and is not in the
  repository. \<open>delinearize\<close> and \<open>coalesced_loop\<close> follow the words of the
  specification for the merge of two levels: one counter \<open>c\<close> over \<open>[0, rows * cols)\<close>,
  outer index \<open>c / cols\<close>, inner index \<open>c % cols\<close>. They are compared with
  \<open>nested_loop\<close> below.
\<close>

definition delinearize :: "nat \<Rightarrow> nat \<Rightarrow> nat \<times> nat" where
  "delinearize cols c = (c div cols, c mod cols)"

definition coalesced_loop ::
  "nat \<Rightarrow> nat \<Rightarrow> (nat \<Rightarrow> nat \<Rightarrow> 's \<Rightarrow> 's option) \<Rightarrow> 's \<Rightarrow> 's option" where
  "coalesced_loop rows cols body =
     for_each [0..<rows * cols] (\<lambda>c. case delinearize cols c of (i, j) \<Rightarrow> body i j)"

text \<open>
  A two-level nest under the attribute. The program instantiates the factors 1 (no merge)
  and 2 (the levels \<open>i\<close> and \<open>j\<close> merged); the reduction loop over \<open>k\<close> is never merged.
\<close>

definition loop_coalesce ::
  "nat \<Rightarrow> nat \<Rightarrow> nat \<Rightarrow> (nat \<Rightarrow> nat \<Rightarrow> 's \<Rightarrow> 's option) \<Rightarrow> 's \<Rightarrow> 's option" where
  "loop_coalesce coalesce_factor rows cols body =
     (if coalesce_factor \<le> 1 then nested_loop rows cols body
      else coalesced_loop rows cols body)"

text \<open>The index pairs a loop visits, in order: the loop run on a body that records them.\<close>

definition visit :: "nat \<Rightarrow> nat \<Rightarrow> (nat \<times> nat) list \<Rightarrow> (nat \<times> nat) list option" where
  "visit i j seen = Some (seen @ [(i, j)])"

section \<open>The kernel\<close>

text \<open>
  The memory one kernel invocation works on: the three accessors, the running index and
  the three local arrays \<^verbatim>\<open>float a[4][4], b[4][4], tmp[4][4]\<close>.
\<close>

record kernel_state =
  accessor_matrix_a :: "float list"
  accessor_matrix_b :: "float list"
  accessor_res :: "float list"
  idx :: nat
  a :: "float list list"
  b :: "float list list"
  tmp :: "float list list"

definition set2 :: "'x list list \<Rightarrow> nat \<Rightarrow> nat \<Rightarrow> 'x \<Rightarrow> 'x list list" where
  "set2 m i j v = m[i := (m ! i)[j := v]]"

text \<open>
  The body of the load nest:
  \<^verbatim>\<open>a[i][j] = accessor_matrix_a[idx]; b[i][j] = accessor_matrix_b[idx]; tmp[i][j] = 0.0; idx++;\<close>
\<close>

definition load_body :: "nat \<Rightarrow> nat \<Rightarrow> kernel_state \<Rightarrow> kernel_state option" where
  "load_body i j s =
     (if idx s < length (accessor_matrix_a s) \<and> idx s < length (accessor_matrix_b s) then
        Some (s\<lparr>a := set2 (a s) i j (accessor_matrix_a s ! idx s),
                b := set2 (b s) i j (accessor_matrix_b s ! idx s),
                tmp := set2 (tmp s) i j zero_f,
                idx := idx s + 1\<rparr>)
      else None)"

text \<open>
  The body of the multiply nest, with its reduction loop:
  \<^verbatim>\<open>float sum = 0.0f; for (k = 0; k < kNumCols; ++k) sum += a[i][k] * b[k][j]; tmp[i][j] = sum;\<close>
\<close>

definition multiply_body :: "nat \<Rightarrow> nat \<Rightarrow> kernel_state \<Rightarrow> kernel_state option" where
  "multiply_body i j s =
     Some (s\<lparr>tmp := set2 (tmp s) i j
              (fold (\<lambda>k sum. fadd sum (fmul (a s ! i ! k) (b s ! k ! j))) [0..<kNumCols] zero_f)\<rparr>)"

text \<open>The body of the store nest: \<^verbatim>\<open>accessor_res[idx] = tmp[i][j]; idx++;\<close>\<close>

definition store_body :: "nat \<Rightarrow> nat \<Rightarrow> kernel_state \<Rightarrow> kernel_state option" where
  "store_body i j s =
     (if idx s < length (accessor_res s) then
        Some (s\<lparr>accessor_res := (accessor_res s)[idx s := tmp s ! i ! j], idx := idx s + 1\<rparr>)
      else None)"

text \<open>
  The kernel: \<^verbatim>\<open>idx = 0\<close>, the load nest, the multiply nest, \<^verbatim>\<open>idx = 0\<close> again, the
  store nest, each nest under the attribute.
\<close>

definition KernelCompute :: "nat \<Rightarrow> kernel_state \<Rightarrow> kernel_state option" where
  "KernelCompute coalesce_factor s =
     (case loop_coalesce coalesce_factor kNumRows kNumCols load_body (s\<lparr>idx := 0\<rparr>) of
        None \<Rightarrow> None
      | Some s1 \<Rightarrow>
          (case loop_coalesce coalesce_factor kNumRows kNumCols multiply_body s1 of
             None \<Rightarrow> None
           | Some s2 \<Rightarrow>
               loop_coalesce coalesce_factor kNumRows kNumCols store_body (s2\<lparr>idx := 0\<rparr>)))"

text \<open>
  What the program does not determine about one invocation: whether the device is there
  (\<open>None\<close> is a synchronous SYCL exception, after which the function calls
  \<^verbatim>\<open>std::terminate\<close>), its name, the content of the three local arrays before they are
  written, and the content of the output buffer, which is opened \<^verbatim>\<open>write_only, no_init\<close>.
\<close>

record backend =
  device :: "string option"
  junk_a :: "nat \<Rightarrow> nat \<Rightarrow> float"
  junk_b :: "nat \<Rightarrow> nat \<Rightarrow> float"
  junk_tmp :: "nat \<Rightarrow> nat \<Rightarrow> float"
  junk_res :: "nat \<Rightarrow> float"

datatype fault = Terminate | OutOfBounds

definition array2 :: "(nat \<Rightarrow> nat \<Rightarrow> float) \<Rightarrow> float list list" where
  "array2 f = map (\<lambda>i. map (f i) [0..<kNumCols]) [0..<kNumRows]"

definition initial_state :: "backend \<Rightarrow> float list \<Rightarrow> float list \<Rightarrow> float list \<Rightarrow> kernel_state" where
  "initial_state env matrix_a matrix_b res =
     \<lparr>accessor_matrix_a = matrix_a, accessor_matrix_b = matrix_b,
      accessor_res = map (junk_res env) [0..<length res],
      idx = 0, a = array2 (junk_a env), b = array2 (junk_b env), tmp = array2 (junk_tmp env)\<rparr>"

text \<open>
  \<open>MatrixMultiply\<close> returns what it printed and the content of \<^verbatim>\<open>res\<close> after the buffers
  are destroyed, which is the content of the output buffer after the kernel.
\<close>

definition MatrixMultiply ::
  "nat \<Rightarrow> backend \<Rightarrow> float list \<Rightarrow> float list \<Rightarrow> float list \<Rightarrow> fault + string list \<times> float list" where
  "MatrixMultiply coalesce_factor env matrix_a matrix_b res =
     (case device env of
        None \<Rightarrow> Inl Terminate
      | Some name \<Rightarrow>
          (case KernelCompute coalesce_factor (initial_state env matrix_a matrix_b res) of
             None \<Rightarrow> Inl OutOfBounds
           | Some s \<Rightarrow> Inr ([''Running on device: '' @ name], accessor_res s)))"

section \<open>The orchestrator\<close>

text \<open>
  The initialisation loop of \<open>main\<close> on the two vectors, which start as sixteen zeros:
  \<^verbatim>\<open>pos = i * kNumCols; matrix_a[i + pos] = 1.0; matrix_b[pos + j] = i * j + 1;\<close>
\<close>

definition init_body :: "nat \<Rightarrow> nat \<Rightarrow> float list \<Rightarrow> float list option" where
  "init_body i j matrix_b =
     (let pos = i * kNumCols
      in if pos + j < length matrix_b
         then Some (matrix_b[pos + j := float_of_size_t (i * j + 1)]) else None)"

definition init_row :: "nat \<Rightarrow> float list \<times> float list \<Rightarrow> (float list \<times> float list) option" where
  "init_row i = (\<lambda>(matrix_a, matrix_b).
     let pos = i * kNumCols
     in if i + pos < length matrix_a then
          (let matrix_a' = matrix_a[i + pos := one_f]
           in case for_each [0..<kNumCols] (init_body i) matrix_b of
                None \<Rightarrow> None
              | Some matrix_b' \<Rightarrow> Some (matrix_a', matrix_b'))
        else None)"

definition init_matrices :: "(float list \<times> float list) option" where
  "init_matrices =
     for_each [0..<kNumRows] init_row
       (replicate kNumElements zero_f, replicate kNumElements zero_f)"

text \<open>
  The correctness check: what is printed on \<^verbatim>\<open>std::cout\<close>, line by line, and the flag
  \<^verbatim>\<open>passed\<close>; then the final line and the value \<open>main\<close> returns.
\<close>

definition check_body ::
  "float list \<Rightarrow> float list \<Rightarrow> nat \<Rightarrow> nat \<Rightarrow> string list \<times> bool \<Rightarrow> (string list \<times> bool) option" where
  "check_body matrix_output_no_col matrix_output i j = (\<lambda>(cout, passed).
     let pos = i * kNumCols
     in if pos + j < length matrix_output_no_col \<and> pos + j < length matrix_output then
          (let val_noCol = matrix_output_no_col ! (pos + j);
               val = matrix_output ! (pos + j)
           in if fneq val_noCol (float_of_size_t (i * j + 1)) \<or> fneq val (float_of_size_t (i * j + 1))
              then Some (cout @ [''FAILED: The results are incorrect''], False)
              else Some (cout, passed))
        else None)"

definition correctness_check :: "float list \<Rightarrow> float list \<Rightarrow> fault + string list \<times> int" where
  "correctness_check matrix_output_no_col matrix_output =
     (case nested_loop kNumRows kNumCols (check_body matrix_output_no_col matrix_output) ([], True) of
        None \<Rightarrow> Inl OutOfBounds
      | Some (cout, passed) \<Rightarrow>
          if passed then Inr (cout @ [''PASSED: The results are correct''], 0)
          else Inr (cout @ [''FAILED''], - 1))"

text \<open>
  \<open>main\<close>, given the backend of each of its two invocations. What the program writes to
  \<^verbatim>\<open>std::cerr\<close> before \<^verbatim>\<open>std::terminate\<close> is not kept.
\<close>

definition main :: "backend \<Rightarrow> backend \<Rightarrow> fault + string list \<times> int" where
  "main env1 env2 =
     (case init_matrices of
        None \<Rightarrow> Inl OutOfBounds
      | Some (matrix_a, matrix_b) \<Rightarrow>
          (case MatrixMultiply 1 env1 matrix_a matrix_b (replicate kNumElements zero_f) of
             Inl f \<Rightarrow> Inl f
           | Inr (cout1, matrix_output_no_col) \<Rightarrow>
               (case MatrixMultiply 2 env2 matrix_a matrix_b (replicate kNumElements zero_f) of
                  Inl f \<Rightarrow> Inl f
                | Inr (cout2, matrix_output) \<Rightarrow>
                    (case correctness_check matrix_output_no_col matrix_output of
                       Inl f \<Rightarrow> Inl f
                     | Inr (cout, code) \<Rightarrow> Inr (cout1 @ cout2 @ cout, code)))))"

section \<open>Notions used to state the properties\<close>

text \<open>
  The sum of products the kernel is to compute for row \<open>i\<close> and column \<open>j\<close> of two
  row-major matrices, accumulated in \<^verbatim>\<open>float\<close> from \<open>0.0\<close> in increasing \<open>k\<close>.
\<close>

definition dot :: "float list \<Rightarrow> float list \<Rightarrow> nat \<Rightarrow> nat \<Rightarrow> float" where
  "dot A B i j =
     fold (\<lambda>k sum. fadd sum (fmul (A ! (i * kNumCols + k)) (B ! (k * kNumCols + j))))
       [0..<kNumCols] zero_f"

definition product :: "float list \<Rightarrow> float list \<Rightarrow> float list" where
  "product A B = map (\<lambda>p. dot A B (p div kNumCols) (p mod kNumCols)) [0..<kNumElements]"

definition rows_of :: "float list \<Rightarrow> float list list" where
  "rows_of M = map (\<lambda>i. map (\<lambda>j. M ! (i * kNumCols + j)) [0..<kNumCols]) [0..<kNumRows]"

text \<open>
  \<open>represents x n\<close>: the datum \<open>x\<close> is finite, not negative, and its value
  \<open>significand x * 2 ^ scale x\<close> is the natural number \<open>n\<close>, with nothing rounded away.
\<close>

definition represents :: "float \<Rightarrow> nat \<Rightarrow> bool" where
  "represents x n \<longleftrightarrow>
     \<not> fsign x \<and> fexp x \<noteq> 255 \<and>
     (if 0 \<le> scale x then significand x * 2 ^ nat (scale x) = n
      else significand x = n * 2 ^ nat (- scale x))"

text \<open>The condition under which the check of \<open>main\<close> reports the position \<open>(i, j)\<close>.\<close>

definition mismatch :: "float list \<Rightarrow> float list \<Rightarrow> nat \<Rightarrow> nat \<Rightarrow> bool" where
  "mismatch r1 r2 i j \<longleftrightarrow>
     fneq (r1 ! (i * kNumCols + j)) (float_of_size_t (i * j + 1)) \<or>
     fneq (r2 ! (i * kNumCols + j)) (float_of_size_t (i * j + 1))"

section \<open>Loops: the merged loop against the nest\<close>

lemma upt_4: "[0..<4] = [0, 1, 2, 3]"
  by (simp add: upt_rec)

lemma upt_16: "[0..<16] = [0, 1, 2, 3, 4, 5, 6, 7, 8, 9, 10, 11, 12, 13, 14, 15]"
  by (simp add: upt_rec)

lemma for_each_append:
  "for_each (xs @ ys) body s =
     (case for_each xs body s of None \<Rightarrow> None | Some s' \<Rightarrow> for_each ys body s')"
  by (induction xs arbitrary: s) (auto split: option.splits)

lemma for_each_map: "for_each (map f xs) body s = for_each xs (\<lambda>x. body (f x)) s"
  by (induction xs arbitrary: s) (auto split: option.splits)

lemma for_each_cong:
  "(\<And>x. x \<in> set xs \<Longrightarrow> f x = g x) \<Longrightarrow> for_each xs f s = for_each xs g s"
  by (induction xs arbitrary: s) (auto split: option.splits)

lemma upt_shift: "[m..<m + n] = map (\<lambda>j. m + j) [0..<n]"
  by (induction n) auto

text \<open>One row of the nest is one block of \<open>cols\<close> consecutive counters of the merged loop.\<close>

lemma for_each_block:
  "for_each [r * cols..<r * cols + cols] (\<lambda>c. case delinearize cols c of (i, j) \<Rightarrow> body i j) s
     = for_each [0..<cols] (body r) s"
proof -
  have "for_each [r * cols..<r * cols + cols] (\<lambda>c. case delinearize cols c of (i, j) \<Rightarrow> body i j) s
      = for_each [0..<cols] (\<lambda>j. case delinearize cols (r * cols + j) of (i, j) \<Rightarrow> body i j) s"
    by (simp only: upt_shift [of "r * cols" cols] for_each_map)
  also have "\<dots> = for_each [0..<cols] (body r) s"
    by (rule for_each_cong) (simp add: delinearize_def)
  finally show ?thesis .
qed

lemma coalesced_loop_nested_loop:
  "coalesced_loop rows cols body s = nested_loop rows cols body s"
proof (induction rows arbitrary: s)
  case 0
  show ?case by (simp add: coalesced_loop_def nested_loop_def)
next
  case (Suc r)
  have "[0..<r * cols + cols] = [0..<r * cols] @ [r * cols..<r * cols + cols]"
    by (rule upt_add_eq_append) simp
  moreover have "Suc r * cols = r * cols + cols"
    by simp
  ultimately have split: "[0..<Suc r * cols] = [0..<r * cols] @ [r * cols..<r * cols + cols]"
    by (simp only:)
  have "coalesced_loop (Suc r) cols body s =
      (case coalesced_loop r cols body s of None \<Rightarrow> None
       | Some s' \<Rightarrow> for_each [0..<cols] (body r) s')"
    unfolding coalesced_loop_def split for_each_append for_each_block ..
  also have "\<dots> =
      (case nested_loop r cols body s of None \<Rightarrow> None
       | Some s' \<Rightarrow> for_each [0..<cols] (body r) s')"
    by (simp only: Suc.IH)
  also have "\<dots> = nested_loop (Suc r) cols body s"
    by (simp add: nested_loop_def for_each_append split: option.splits)
  finally show ?case .
qed

lemma loop_coalesce_nested_loop:
  "loop_coalesce k rows cols body s = nested_loop rows cols body s"
  by (simp add: loop_coalesce_def coalesced_loop_nested_loop)

lemma nested_4_4:
  "nested_loop 4 4 body s = for_each [0, 1, 2, 3] (\<lambda>i. for_each [0, 1, 2, 3] (body i)) s"
  by (simp only: nested_loop_def upt_4)

lemma for_each_visit:
  "for_each cs (\<lambda>c. case f c of (i, j) \<Rightarrow> visit i j) seen = Some (seen @ map f cs)"
  by (induction cs arbitrary: seen) (simp_all add: visit_def split: prod.splits)

lemma coalesced_visit:
  "coalesced_loop rows cols visit [] = Some (map (delinearize cols) [0..<rows * cols])"
  by (simp add: coalesced_loop_def for_each_visit)

lemma pairs_16:
  "map (delinearize 4) [0..<16] =
     [(0, 0), (0, 1), (0, 2), (0, 3), (1, 0), (1, 1), (1, 2), (1, 3),
      (2, 0), (2, 1), (2, 2), (2, 3), (3, 0), (3, 1), (3, 2), (3, 3)]"
  by (simp add: upt_16 delinearize_def)

lemma square_4:
  "{0..<4::nat} \<times> {0..<4::nat} = set (List.product [0, 1, 2, 3] [0, 1, 2, 3])"
  by (simp only: set_product atLeastLessThan_upt upt_4)

text \<open>
  C4. The index recovery \<open>c \<mapsto> (c / 4, c % 4)\<close> over the counters \<open>0, \<dots>, 15\<close> lists
  the pairs the unmerged nest visits, in the order in which it visits them, so the pair
  recovered at the counter \<open>c\<close> is the pair of the \<open>c\<close>-th iteration of the nest; the merged
  loop visits the same list; no pair occurs twice, and the pairs are exactly those of
  \<open>[0,4) \<times> [0,4)\<close>.
\<close>

theorem index_recovery_enumerates_nest:
  "nested_loop kNumRows kNumCols visit [] =
     Some (map (delinearize kNumCols) [0..<kNumRows * kNumCols])
   \<and> coalesced_loop kNumRows kNumCols visit [] =
     Some (map (delinearize kNumCols) [0..<kNumRows * kNumCols])
   \<and> distinct (map (delinearize kNumCols) [0..<kNumRows * kNumCols])
   \<and> set (map (delinearize kNumCols) [0..<kNumRows * kNumCols]) = {0..<kNumRows} \<times> {0..<kNumCols}
   \<and> delinearize kNumCols 0 = (0, 0) \<and> delinearize kNumCols 6 = (1, 2)
   \<and> delinearize kNumCols 15 = (3, 3)"
proof -
  have merged: "coalesced_loop kNumRows kNumCols visit [] =
      Some (map (delinearize kNumCols) [0..<kNumRows * kNumCols])"
    by (rule coalesced_visit)
  have nest: "nested_loop kNumRows kNumCols visit [] =
      Some (map (delinearize kNumCols) [0..<kNumRows * kNumCols])"
    using merged by (simp only: coalesced_loop_nested_loop)
  have once: "distinct (map (delinearize kNumCols) [0..<kNumRows * kNumCols])"
    by (simp add: kNumRows_def kNumCols_def pairs_16)
  have all: "set (map (delinearize kNumCols) [0..<kNumRows * kNumCols])
      = {0..<kNumRows} \<times> {0..<kNumCols}"
    unfolding kNumRows_def kNumCols_def square_4 by (simp add: pairs_16)
  have "delinearize kNumCols 0 = (0, 0)" "delinearize kNumCols 6 = (1, 2)"
    "delinearize kNumCols 15 = (3, 3)"
    by (simp_all add: delinearize_def kNumCols_def)
  with merged nest once all show ?thesis
    by (simp only: simp_thms)
qed

section \<open>The kernel run\<close>

text \<open>
  On inputs of sixteen elements the kernel ends, for either factor, in one state that the
  input matrices alone determine: every local array and the output are overwritten.
\<close>

lemma kernel_run:
  assumes "length A = 16" "length B = 16" "length res = 16"
  shows "KernelCompute k (initial_state env A B res) =
     Some \<lparr>accessor_matrix_a = A, accessor_matrix_b = B, accessor_res = product A B,
       idx = 16, a = rows_of A, b = rows_of B, tmp = rows_of (product A B)\<rparr>"
  using assms
  apply (simp add: KernelCompute_def loop_coalesce_nested_loop kNumRows_def kNumCols_def
      kNumElements_def nested_4_4 initial_state_def array2_def upt_4 upt_16 load_body_def
      multiply_body_def store_body_def set2_def dot_def product_def rows_of_def)
  apply (simp only: One_nat_def [symmetric] Suc_1 Suc_numeral arith_simps)
  done

lemma length_product: "length (product A B) = kNumElements"
  by (simp add: product_def)

lemma MatrixMultiply_run:
  assumes "length A = kNumElements" "length B = kNumElements" "length res = kNumElements"
    and "device env = Some name"
  shows "MatrixMultiply k env A B res = Inr ([''Running on device: '' @ name], product A B)"
  using assms by (simp add: MatrixMultiply_def kernel_run kNumElements_def kNumRows_def kNumCols_def)

lemma kNumElements_16: "kNumElements = 16"
  by (simp add: kNumElements_def kNumRows_def kNumCols_def)

lemma fneq_same: "fneq x x \<longleftrightarrow> is_nan x"
  by (simp add: fneq_def)

text \<open>
  C2. On input matrices of sixteen elements each, the kernel instantiated with the
  factor 2 and the kernel instantiated with the factor 1, each run on a device of its own
  with an output vector of its own, both return, and return the same sixteen values,
  element by element. (Under the comparison \<^verbatim>\<open>!=\<close> of C++ an element differs from
  itself exactly when it is a NaN.)
\<close>

theorem coalescing_preserves_result:
  assumes "length A = kNumElements" and "length B = kNumElements"
    and "length res1 = kNumElements" and "length res2 = kNumElements"
    and "device env1 = Some name1" and "device env2 = Some name2"
  shows "\<exists>cout1 cout2 out1 out2.
     MatrixMultiply 1 env1 A B res1 = Inr (cout1, out1) \<and>
     MatrixMultiply 2 env2 A B res2 = Inr (cout2, out2) \<and>
     length out1 = kNumElements \<and> length out2 = kNumElements \<and>
     (\<forall>p < kNumElements.
        out2 ! p = out1 ! p \<and> (fneq (out2 ! p) (out1 ! p) \<longleftrightarrow> is_nan (out1 ! p)))"
proof -
  have "MatrixMultiply 1 env1 A B res1 = Inr ([''Running on device: '' @ name1], product A B)"
    using assms by (simp only: MatrixMultiply_run)
  moreover
  have "MatrixMultiply 2 env2 A B res2 = Inr ([''Running on device: '' @ name2], product A B)"
    using assms by (simp only: MatrixMultiply_run)
  ultimately show ?thesis
    by (simp add: length_product fneq_same)
qed

theorem coalescing_preserves_result_witness:
  "\<exists>cout1 cout2 out1 out2.
     MatrixMultiply 1
       \<lparr>device = Some ''emulator'', junk_a = (\<lambda>i j. qNaN), junk_b = (\<lambda>i j. one_f),
        junk_tmp = (\<lambda>i j. zero_f), junk_res = (\<lambda>p. qNaN)\<rparr>
       (map float_of_size_t [0..<16]) (replicate 16 one_f) (replicate 16 qNaN)
       = Inr (cout1, out1) \<and>
     MatrixMultiply 2
       \<lparr>device = Some ''simulator'', junk_a = (\<lambda>i j. one_f), junk_b = (\<lambda>i j. zero_f),
        junk_tmp = (\<lambda>i j. qNaN), junk_res = (\<lambda>p. one_f)\<rparr>
       (map float_of_size_t [0..<16]) (replicate 16 one_f) (replicate kNumElements zero_f)
       = Inr (cout2, out2) \<and>
     length out1 = kNumElements \<and> length out2 = kNumElements \<and>
     out2 ! 7 = out1 ! 7"
proof -
  have "length (map float_of_size_t [0..<16]) = kNumElements"
    "length (replicate 16 one_f) = kNumElements"
    "length (replicate 16 qNaN) = kNumElements"
    "length (replicate kNumElements zero_f) = kNumElements"
    by (simp_all add: kNumElements_16)
  from coalescing_preserves_result [OF this,
      of "\<lparr>device = Some ''emulator'', junk_a = (\<lambda>i j. qNaN), junk_b = (\<lambda>i j. one_f),
           junk_tmp = (\<lambda>i j. zero_f), junk_res = (\<lambda>p. qNaN)\<rparr>" "''emulator''"
         "\<lparr>device = Some ''simulator'', junk_a = (\<lambda>i j. one_f), junk_b = (\<lambda>i j. zero_f),
           junk_tmp = (\<lambda>i j. qNaN), junk_res = (\<lambda>p. one_f)\<rparr>" "''simulator''"]
  obtain cout1 cout2 out1 out2 where run:
    "MatrixMultiply 1
       \<lparr>device = Some ''emulator'', junk_a = (\<lambda>i j. qNaN), junk_b = (\<lambda>i j. one_f),
        junk_tmp = (\<lambda>i j. zero_f), junk_res = (\<lambda>p. qNaN)\<rparr>
       (map float_of_size_t [0..<16]) (replicate 16 one_f) (replicate 16 qNaN)
       = Inr (cout1, out1)"
    "MatrixMultiply 2
       \<lparr>device = Some ''simulator'', junk_a = (\<lambda>i j. one_f), junk_b = (\<lambda>i j. zero_f),
        junk_tmp = (\<lambda>i j. qNaN), junk_res = (\<lambda>p. one_f)\<rparr>
       (map float_of_size_t [0..<16]) (replicate 16 one_f) (replicate kNumElements zero_f)
       = Inr (cout2, out2)"
    "length out1 = kNumElements" "length out2 = kNumElements"
    and same: "\<forall>p < kNumElements.
        out2 ! p = out1 ! p \<and> (fneq (out2 ! p) (out1 ! p) \<longleftrightarrow> is_nan (out1 ! p))"
    by auto
  have "7 < kNumElements"
    by (simp add: kNumElements_16)
  with same have "out2 ! 7 = out1 ! 7"
    by blast
  with run show ?thesis
    by blast
qed

lemma product_nth:
  assumes "i < kNumRows" and "j < kNumCols"
  shows "product A B ! (i * kNumCols + j) = dot A B i j"
proof -
  have "i * kNumCols + j < kNumElements"
    using assms by (simp add: kNumElements_def kNumRows_def kNumCols_def)
  then have "product A B ! (i * kNumCols + j)
      = dot A B ((i * kNumCols + j) div kNumCols) ((i * kNumCols + j) mod kNumCols)"
    by (simp add: product_def)
  also have "\<dots> = dot A B i j"
    using assms by (simp add: kNumCols_def)
  finally show ?thesis .
qed

lemma rows_of_nth:
  assumes "i < kNumRows" and "j < kNumCols"
  shows "rows_of M ! i ! j = M ! (i * kNumCols + j)"
  using assms by (simp add: rows_of_def)

lemma dot_foldl:
  "dot A B i j =
     foldl (\<lambda>sum m. fadd sum (fmul (A ! (i * kNumCols + m)) (B ! (m * kNumCols + j))))
       zero_f [0..<kNumCols]"
  by (simp only: dot_def foldl_conv_fold)

text \<open>
  C3. For input matrices of sixteen elements each, row-major, and for either factor, the
  kernel returns, and the element \<open>i * N + j\<close> of its output is the sum over \<open>m\<close> in
  \<open>[0, N)\<close> of \<open>A[i * N + m] * B[m * N + j]\<close>, with \<open>N = 4\<close>: the sum is taken in
  \<^verbatim>\<open>float\<close>, from \<open>0.0\<close>, in increasing \<open>m\<close>, each product and each addition rounded.
\<close>

theorem kernel_computes_product:
  assumes "length A = kNumElements" and "length B = kNumElements"
    and "length res = kNumElements" and "device env = Some name"
    and "k = 1 \<or> k = 2" and "i < kNumRows" and "j < kNumCols"
  shows "\<exists>cout Result.
     MatrixMultiply k env A B res = Inr (cout, Result) \<and>
     Result ! (i * kNumCols + j) =
       foldl (\<lambda>sum m. fadd sum (fmul (A ! (i * kNumCols + m)) (B ! (m * kNumCols + j))))
         zero_f [0..<kNumCols]"
proof -
  have "MatrixMultiply k env A B res = Inr ([''Running on device: '' @ name], product A B)"
    using assms by (simp only: MatrixMultiply_run)
  moreover have "product A B ! (i * kNumCols + j) =
      foldl (\<lambda>sum m. fadd sum (fmul (A ! (i * kNumCols + m)) (B ! (m * kNumCols + j))))
        zero_f [0..<kNumCols]"
    using assms by (simp only: product_nth dot_foldl)
  ultimately show ?thesis
    by blast
qed

theorem kernel_computes_product_witness:
  "\<exists>cout Result.
     MatrixMultiply 2
       \<lparr>device = Some ''emulator'', junk_a = (\<lambda>i j. qNaN), junk_b = (\<lambda>i j. one_f),
        junk_tmp = (\<lambda>i j. zero_f), junk_res = (\<lambda>p. qNaN)\<rparr>
       (map float_of_size_t [0..<16]) (replicate 16 one_f) (replicate 16 qNaN)
       = Inr (cout, Result) \<and>
     Result ! (1 * kNumCols + 2) =
       foldl (\<lambda>sum m. fadd sum (fmul (map float_of_size_t [0..<16] ! (1 * kNumCols + m))
                                   (replicate 16 one_f ! (m * kNumCols + 2))))
         zero_f [0..<kNumCols]"
  by (rule kernel_computes_product)
    (simp_all add: kNumElements_16 kNumRows_def kNumCols_def)

lemma bodies_keep_inputs:
  assumes "load_body i j t = Some t' \<or> multiply_body i j t = Some t' \<or> store_body i j t = Some t'"
  shows "accessor_matrix_a t' = accessor_matrix_a t \<and> accessor_matrix_b t' = accessor_matrix_b t"
  using assms
  by (auto simp add: load_body_def multiply_body_def store_body_def split: if_splits)

text \<open>
  C8. A kernel execution on sixteen-element buffers, for either factor, leaves the two
  input buffers as they were, and its store phase writes every one of the sixteen
  elements of the output buffer: after completion the element \<open>i * 4 + j\<close> of the output
  is \<open>tmp[i][j]\<close>, and the final state is the same whatever the output buffer held
  before. No iteration of the load, multiply or store loop changes an input buffer.
\<close>

theorem buffer_access_discipline:
  assumes "length A = kNumElements" and "length B = kNumElements"
    and "length res = kNumElements" and "k = 1 \<or> k = 2"
  shows "(\<exists>s. KernelCompute k (initial_state env A B res) = Some s \<and>
     accessor_matrix_a s = A \<and> accessor_matrix_b s = B \<and>
     length (accessor_res s) = kNumElements \<and>
     (\<forall>i < kNumRows. \<forall>j < kNumCols. accessor_res s ! (i * kNumCols + j) = tmp s ! i ! j) \<and>
     (\<forall>env'. junk_a env' = junk_a env \<and> junk_b env' = junk_b env \<and> junk_tmp env' = junk_tmp env
        \<longrightarrow> KernelCompute k (initial_state env' A B res) = Some s)) \<and>
   (\<forall>i j t t'.
      load_body i j t = Some t' \<or> multiply_body i j t = Some t' \<or> store_body i j t = Some t'
      \<longrightarrow> accessor_matrix_a t' = accessor_matrix_a t \<and> accessor_matrix_b t' = accessor_matrix_b t)"
proof -
  have run: "\<And>e. KernelCompute k (initial_state e A B res) =
     Some \<lparr>accessor_matrix_a = A, accessor_matrix_b = B, accessor_res = product A B,
       idx = 16, a = rows_of A, b = rows_of B, tmp = rows_of (product A B)\<rparr>"
    using assms by (simp add: kernel_run kNumElements_16)
  have final: "\<exists>s. KernelCompute k (initial_state env A B res) = Some s \<and>
     accessor_matrix_a s = A \<and> accessor_matrix_b s = B \<and>
     length (accessor_res s) = kNumElements \<and>
     (\<forall>i < kNumRows. \<forall>j < kNumCols. accessor_res s ! (i * kNumCols + j) = tmp s ! i ! j) \<and>
     (\<forall>env'. junk_a env' = junk_a env \<and> junk_b env' = junk_b env \<and> junk_tmp env' = junk_tmp env
        \<longrightarrow> KernelCompute k (initial_state env' A B res) = Some s)"
    by (simp add: run length_product rows_of_nth)
  have steps: "\<forall>i j t t'.
      load_body i j t = Some t' \<or> multiply_body i j t = Some t' \<or> store_body i j t = Some t'
      \<longrightarrow> accessor_matrix_a t' = accessor_matrix_a t \<and> accessor_matrix_b t' = accessor_matrix_b t"
    by (intro allI impI) (rule bodies_keep_inputs)
  from final steps show ?thesis ..
qed

theorem buffer_access_discipline_witness:
  "(\<exists>s. KernelCompute 1
       (initial_state
         \<lparr>device = None, junk_a = (\<lambda>i j. qNaN), junk_b = (\<lambda>i j. one_f),
          junk_tmp = (\<lambda>i j. zero_f), junk_res = (\<lambda>p. qNaN)\<rparr>
         (map float_of_size_t [0..<16]) (replicate 16 one_f) (replicate 16 qNaN)) = Some s \<and>
     accessor_matrix_a s = map float_of_size_t [0..<16] \<and>
     accessor_matrix_b s = replicate 16 one_f \<and>
     length (accessor_res s) = kNumElements \<and>
     accessor_res s ! (3 * kNumCols + 1) = tmp s ! 3 ! 1 \<and>
     KernelCompute 1
       (initial_state
         \<lparr>device = None, junk_a = (\<lambda>i j. qNaN), junk_b = (\<lambda>i j. one_f),
          junk_tmp = (\<lambda>i j. zero_f), junk_res = (\<lambda>p. one_f)\<rparr>
         (map float_of_size_t [0..<16]) (replicate 16 one_f) (replicate 16 qNaN)) = Some s) \<and>
   (\<exists>t'. load_body 0 0
       (initial_state
         \<lparr>device = None, junk_a = (\<lambda>i j. qNaN), junk_b = (\<lambda>i j. one_f),
          junk_tmp = (\<lambda>i j. zero_f), junk_res = (\<lambda>p. qNaN)\<rparr>
         (map float_of_size_t [0..<16]) (replicate 16 one_f) (replicate 16 qNaN)) = Some t' \<and>
     accessor_matrix_a t' = map float_of_size_t [0..<16] \<and>
     accessor_matrix_b t' = replicate 16 one_f)"
proof -
  let ?env = "\<lparr>device = None, junk_a = (\<lambda>i j. qNaN), junk_b = (\<lambda>i j. one_f),
          junk_tmp = (\<lambda>i j. zero_f), junk_res = (\<lambda>p. qNaN)\<rparr>"
  let ?s0 = "initial_state ?env (map float_of_size_t [0..<16]) (replicate 16 one_f)
      (replicate 16 qNaN)"
  have "length (map float_of_size_t [0..<16]) = kNumElements"
    "length (replicate 16 one_f) = kNumElements" "length (replicate 16 qNaN) = kNumElements"
    "(1::nat) = 1 \<or> (1::nat) = 2"
    by (simp_all add: kNumElements_16)
  note discipline = buffer_access_discipline [OF this, of ?env]
  from discipline obtain s where s: "KernelCompute 1 ?s0 = Some s"
     "accessor_matrix_a s = map float_of_size_t [0..<16]"
     "accessor_matrix_b s = replicate 16 one_f"
     "length (accessor_res s) = kNumElements"
     "\<forall>i < kNumRows. \<forall>j < kNumCols. accessor_res s ! (i * kNumCols + j) = tmp s ! i ! j"
     "\<forall>env'. junk_a env' = (\<lambda>i j. qNaN) \<and> junk_b env' = (\<lambda>i j. one_f) \<and> junk_tmp env' = (\<lambda>i j. zero_f)
        \<longrightarrow> KernelCompute 1 (initial_state env' (map float_of_size_t [0..<16])
              (replicate 16 one_f) (replicate 16 qNaN)) = Some s"
    by auto
  have "3 < kNumRows" "1 < kNumCols"
    by (simp_all add: kNumRows_def kNumCols_def)
  with s(5) have "accessor_res s ! (3 * kNumCols + 1) = tmp s ! 3 ! 1"
    by blast
  moreover from s(6) have "KernelCompute 1
       (initial_state
         \<lparr>device = None, junk_a = (\<lambda>i j. qNaN), junk_b = (\<lambda>i j. one_f),
          junk_tmp = (\<lambda>i j. zero_f), junk_res = (\<lambda>p. one_f)\<rparr>
         (map float_of_size_t [0..<16]) (replicate 16 one_f) (replicate 16 qNaN)) = Some s"
    by simp
  ultimately have final: "\<exists>s. KernelCompute 1 ?s0 = Some s \<and>
     accessor_matrix_a s = map float_of_size_t [0..<16] \<and>
     accessor_matrix_b s = replicate 16 one_f \<and>
     length (accessor_res s) = kNumElements \<and>
     accessor_res s ! (3 * kNumCols + 1) = tmp s ! 3 ! 1 \<and>
     KernelCompute 1
       (initial_state
         \<lparr>device = None, junk_a = (\<lambda>i j. qNaN), junk_b = (\<lambda>i j. one_f),
          junk_tmp = (\<lambda>i j. zero_f), junk_res = (\<lambda>p. one_f)\<rparr>
         (map float_of_size_t [0..<16]) (replicate 16 one_f) (replicate 16 qNaN)) = Some s"
    using s(1-4) by blast
  obtain t' where t': "load_body 0 0 ?s0 = Some t'"
    by (simp add: load_body_def initial_state_def)
  from discipline have "\<forall>i j t t'.
      load_body i j t = Some t' \<or> multiply_body i j t = Some t' \<or> store_body i j t = Some t'
      \<longrightarrow> accessor_matrix_a t' = accessor_matrix_a t \<and> accessor_matrix_b t' = accessor_matrix_b t"
    by blast
  with t' have "accessor_matrix_a t' = accessor_matrix_a ?s0 \<and>
      accessor_matrix_b t' = accessor_matrix_b ?s0"
    by blast
  then have "accessor_matrix_a t' = map float_of_size_t [0..<16] \<and>
      accessor_matrix_b t' = replicate 16 one_f"
    by (simp add: initial_state_def)
  with t' have step: "\<exists>t'. load_body 0 0 ?s0 = Some t' \<and>
     accessor_matrix_a t' = map float_of_size_t [0..<16] \<and>
     accessor_matrix_b t' = replicate 16 one_f"
    by blast
  from final step show ?thesis ..
qed

text \<open>
  C9. The kernel is deterministic: for either factor, two executions on equal input
  matrices of sixteen elements write equal values into the output buffer, whatever the
  output vectors, the output buffers and the local arrays \<open>a\<close>, \<open>b\<close>, \<open>tmp\<close> held before.
\<close>

theorem kernel_deterministic:
  assumes "length A = kNumElements" and "length B = kNumElements"
    and "length res = kNumElements" and "length res' = kNumElements" and "k = 1 \<or> k = 2"
  shows "\<exists>s s'. KernelCompute k (initial_state env A B res) = Some s \<and>
     KernelCompute k (initial_state env' A B res') = Some s' \<and>
     accessor_res s = accessor_res s'"
  using assms by (simp add: kernel_run kNumElements_16)

theorem kernel_deterministic_witness:
  "\<exists>s s'.
     KernelCompute 2
       (initial_state
         \<lparr>device = Some ''emulator'', junk_a = (\<lambda>i j. qNaN), junk_b = (\<lambda>i j. one_f),
          junk_tmp = (\<lambda>i j. zero_f), junk_res = (\<lambda>p. qNaN)\<rparr>
         (map float_of_size_t [0..<16]) (replicate 16 one_f) (replicate 16 qNaN)) = Some s \<and>
     KernelCompute 2
       (initial_state
         \<lparr>device = Some ''simulator'', junk_a = (\<lambda>i j. one_f), junk_b = (\<lambda>i j. zero_f),
          junk_tmp = (\<lambda>i j. qNaN), junk_res = (\<lambda>p. one_f)\<rparr>
         (map float_of_size_t [0..<16]) (replicate 16 one_f) (replicate 16 zero_f)) = Some s' \<and>
     accessor_res s = accessor_res s'"
  by (rule kernel_deterministic) (simp_all add: kNumElements_16)

section \<open>Arithmetic on the values of the program\<close>

text \<open>
  The orchestrator's matrices hold 0, 1 and the values \<open>i * j + 1\<close>, which are
  1, 2, 3, 4, 5, 7 and 10. The conversions, products and sums the program performs on them
  are evaluated once, here.
\<close>

lemmas float_fields = is_nan_def is_inf_def is_zero_def significand_def scale_def signed_sig_def
lemmas rounding = round_float_def rne_shift_def Let_def

lemma float_of_size_t_values:
  "float_of_size_t 1 = Float False 127 0"
  "float_of_size_t 2 = Float False 128 0"
  "float_of_size_t 3 = Float False 128 4194304"
  "float_of_size_t 4 = Float False 129 0"
  "float_of_size_t 5 = Float False 129 2097152"
  "float_of_size_t 7 = Float False 129 6291456"
  "float_of_size_t 10 = Float False 130 2097152"
  by (simp_all add: float_of_size_t_def rounding)

lemma fmul_one_values:
  "fmul one_f (float_of_size_t 1) = float_of_size_t 1"
  "fmul one_f (float_of_size_t 2) = float_of_size_t 2"
  "fmul one_f (float_of_size_t 3) = float_of_size_t 3"
  "fmul one_f (float_of_size_t 4) = float_of_size_t 4"
  "fmul one_f (float_of_size_t 5) = float_of_size_t 5"
  "fmul one_f (float_of_size_t 7) = float_of_size_t 7"
  "fmul one_f (float_of_size_t 10) = float_of_size_t 10"
  unfolding float_of_size_t_values
  by (simp_all add: fmul_def one_f_def float_fields) (simp_all add: rounding)

lemma fmul_zero_values:
  "fmul zero_f (float_of_size_t 1) = zero_f"
  "fmul zero_f (float_of_size_t 2) = zero_f"
  "fmul zero_f (float_of_size_t 3) = zero_f"
  "fmul zero_f (float_of_size_t 4) = zero_f"
  "fmul zero_f (float_of_size_t 5) = zero_f"
  "fmul zero_f (float_of_size_t 7) = zero_f"
  "fmul zero_f (float_of_size_t 10) = zero_f"
  unfolding float_of_size_t_values
  by (simp_all add: fmul_def zero_f_def float_fields) (simp_all add: rounding)

lemma fadd_zero_left_values:
  "fadd zero_f zero_f = zero_f"
  "fadd zero_f (float_of_size_t 1) = float_of_size_t 1"
  "fadd zero_f (float_of_size_t 2) = float_of_size_t 2"
  "fadd zero_f (float_of_size_t 3) = float_of_size_t 3"
  "fadd zero_f (float_of_size_t 4) = float_of_size_t 4"
  "fadd zero_f (float_of_size_t 5) = float_of_size_t 5"
  "fadd zero_f (float_of_size_t 7) = float_of_size_t 7"
  "fadd zero_f (float_of_size_t 10) = float_of_size_t 10"
  unfolding float_of_size_t_values
  by (simp_all add: fadd_def zero_f_def float_fields Let_def) (simp_all add: rounding)

lemma fadd_zero_right_values:
  "fadd (float_of_size_t 1) zero_f = float_of_size_t 1"
  "fadd (float_of_size_t 2) zero_f = float_of_size_t 2"
  "fadd (float_of_size_t 3) zero_f = float_of_size_t 3"
  "fadd (float_of_size_t 4) zero_f = float_of_size_t 4"
  "fadd (float_of_size_t 5) zero_f = float_of_size_t 5"
  "fadd (float_of_size_t 7) zero_f = float_of_size_t 7"
  "fadd (float_of_size_t 10) zero_f = float_of_size_t 10"
  unfolding float_of_size_t_values
  by (simp_all add: fadd_def zero_f_def float_fields Let_def) (simp_all add: rounding)

lemma float_of_size_t_Suc_0: "float_of_size_t (Suc 0) = one_f"
  using float_of_size_t_values(1) by (simp add: one_f_def)

lemma one_f_values:
  "fmul one_f one_f = one_f" "fmul zero_f one_f = zero_f"
  "fadd zero_f one_f = one_f" "fadd one_f zero_f = one_f"
  using fmul_one_values(1) fmul_zero_values(1) fadd_zero_left_values(2) fadd_zero_right_values(1)
  by (simp_all add: float_of_size_t_Suc_0)

lemmas float_table = float_of_size_t_Suc_0 one_f_values
  fmul_one_values fmul_zero_values fadd_zero_left_values fadd_zero_right_values

lemma represents_values:
  "represents zero_f 0" "represents one_f 1"
  "represents (float_of_size_t 1) 1" "represents (float_of_size_t 2) 2"
  "represents (float_of_size_t 3) 3" "represents (float_of_size_t 4) 4"
  "represents (float_of_size_t 5) 5" "represents (float_of_size_t 7) 7"
  "represents (float_of_size_t 10) 10"
  unfolding float_of_size_t_values
  by (simp_all add: represents_def zero_f_def one_f_def float_fields)

lemma fneq_values:
  "\<not> fneq one_f one_f" "\<not> fneq zero_f zero_f"
  "\<not> fneq (float_of_size_t 1) (float_of_size_t 1)" "\<not> fneq (float_of_size_t 2) (float_of_size_t 2)"
  "\<not> fneq (float_of_size_t 3) (float_of_size_t 3)" "\<not> fneq (float_of_size_t 4) (float_of_size_t 4)"
  "\<not> fneq (float_of_size_t 5) (float_of_size_t 5)" "\<not> fneq (float_of_size_t 7) (float_of_size_t 7)"
  "\<not> fneq (float_of_size_t 10) (float_of_size_t 10)"
  unfolding float_of_size_t_values
  by (simp_all add: fneq_def float_fields one_f_def zero_f_def)

lemma fneq_qNaN: "fneq qNaN x"
  by (simp add: fneq_def is_nan_def qNaN_def)

lemma replicate_16: "replicate 16 x = [x, x, x, x, x, x, x, x, x, x, x, x, x, x, x, x]"
  by (simp add: eval_nat_numeral)

lemma init_matrices_eq:
  "init_matrices = Some
     ([one_f, zero_f, zero_f, zero_f,
       zero_f, one_f, zero_f, zero_f,
       zero_f, zero_f, one_f, zero_f,
       zero_f, zero_f, zero_f, one_f],
      [one_f, one_f, one_f, one_f,
       one_f, float_of_size_t 2, float_of_size_t 3, float_of_size_t 4,
       one_f, float_of_size_t 3, float_of_size_t 5, float_of_size_t 7,
       one_f, float_of_size_t 4, float_of_size_t 7, float_of_size_t 10])"
  apply (simp add: init_matrices_def init_row_def init_body_def kNumElements_16 kNumRows_def
      kNumCols_def upt_4 replicate_16 Let_def float_of_size_t_Suc_0)
  apply (simp only: One_nat_def [symmetric] Suc_1 Suc_numeral arith_simps)
  done

lemma product_init:
  "product
     [one_f, zero_f, zero_f, zero_f,
       zero_f, one_f, zero_f, zero_f,
       zero_f, zero_f, one_f, zero_f,
       zero_f, zero_f, zero_f, one_f]
      [one_f, one_f, one_f, one_f,
       one_f, float_of_size_t 2, float_of_size_t 3, float_of_size_t 4,
       one_f, float_of_size_t 3, float_of_size_t 5, float_of_size_t 7,
       one_f, float_of_size_t 4, float_of_size_t 7, float_of_size_t 10]
   = [one_f, one_f, one_f, one_f,
       one_f, float_of_size_t 2, float_of_size_t 3, float_of_size_t 4,
       one_f, float_of_size_t 3, float_of_size_t 5, float_of_size_t 7,
       one_f, float_of_size_t 4, float_of_size_t 7, float_of_size_t 10]"
  by (simp add: product_def dot_def kNumElements_16 kNumCols_def upt_16 upt_4 float_table)

lemma init_matrices_lengths:
  "init_matrices = Some (A, B) \<Longrightarrow> length A = kNumElements \<and> length B = kNumElements"
  by (auto simp add: init_matrices_eq kNumElements_16)

text \<open>
  C5. The initialisation of \<open>main\<close> succeeds and produces two vectors of sixteen
  elements: \<open>matrix_a[i * 4 + j]\<close> is \<open>1.0\<close> when \<open>i = j\<close> and \<open>0.0\<close> otherwise,
  and \<open>matrix_b[i * 4 + j]\<close> is \<open>i * j + 1\<close> converted to \<^verbatim>\<open>float\<close>, for all \<open>i\<close>, \<open>j\<close>
  below 4.
\<close>

theorem init_matrices_values:
  assumes "i < kNumRows" and "j < kNumCols"
  shows "\<exists>matrix_a matrix_b.
     init_matrices = Some (matrix_a, matrix_b) \<and>
     length matrix_a = kNumElements \<and> length matrix_b = kNumElements \<and>
     matrix_a ! (i * kNumCols + j) = (if i = j then one_f else zero_f) \<and>
     matrix_b ! (i * kNumCols + j) = float_of_size_t (i * j + 1)"
proof -
  from assms have "i = 0 \<or> i = 1 \<or> i = 2 \<or> i = 3" and "j = 0 \<or> j = 1 \<or> j = 2 \<or> j = 3"
    unfolding kNumRows_def kNumCols_def by arith+
  then show ?thesis
    by (elim disjE) (simp_all add: init_matrices_eq kNumElements_16 kNumCols_def float_of_size_t_Suc_0
        numeral_2_eq_2 [symmetric])
qed

theorem init_matrices_values_witness:
  "\<exists>matrix_a matrix_b.
     init_matrices = Some (matrix_a, matrix_b) \<and>
     length matrix_a = kNumElements \<and> length matrix_b = kNumElements \<and>
     matrix_a ! (2 * kNumCols + 3) = (if (2::nat) = 3 then one_f else zero_f) \<and>
     matrix_b ! (2 * kNumCols + 3) = float_of_size_t (2 * 3 + 1)"
  by (rule init_matrices_values) (simp_all add: kNumRows_def kNumCols_def)

text \<open>
  C1. On the matrices \<open>main\<close> builds (the identity and \<open>B[i, j] = i * j + 1\<close>) and the
  output vector \<open>main\<close> passes, the kernel returns for the factor 1 and for the factor 2,
  and every element of its result satisfies \<open>Result[i * 4 + j] == i * j + 1\<close>, for all
  \<open>i\<close>, \<open>j\<close> below 4: the element is the \<^verbatim>\<open>float\<close> that \<open>i * j + 1\<close> converts to, and
  the comparison \<^verbatim>\<open>!=\<close> of the check is false on it.
\<close>

theorem closed_form_result:
  assumes "device env = Some name" and "k = 1 \<or> k = 2" and "i < kNumRows" and "j < kNumCols"
  shows "\<exists>A B cout Result.
     init_matrices = Some (A, B) \<and>
     MatrixMultiply k env A B (replicate kNumElements zero_f) = Inr (cout, Result) \<and>
     Result ! (i * kNumCols + j) = float_of_size_t (i * j + 1) \<and>
     \<not> fneq (Result ! (i * kNumCols + j)) (float_of_size_t (i * j + 1))"
proof -
  obtain A B where init: "init_matrices = Some (A, B)"
    by (simp add: init_matrices_eq)
  then have len: "length A = kNumElements" "length B = kNumElements"
    by (simp_all add: init_matrices_lengths)
  have run: "MatrixMultiply k env A B (replicate kNumElements zero_f)
      = Inr ([''Running on device: '' @ name], product A B)"
    using len assms(1) by (simp add: MatrixMultiply_run)
  from assms have "i = 0 \<or> i = 1 \<or> i = 2 \<or> i = 3" and "j = 0 \<or> j = 1 \<or> j = 2 \<or> j = 3"
    unfolding kNumRows_def kNumCols_def by arith+
  then have "product A B ! (i * kNumCols + j) = float_of_size_t (i * j + 1) \<and>
      \<not> fneq (product A B ! (i * kNumCols + j)) (float_of_size_t (i * j + 1))"
    using init
    by (elim disjE)
      (auto simp add: init_matrices_eq product_init kNumCols_def float_of_size_t_Suc_0 fneq_values
        numeral_2_eq_2 [symmetric])
  with init run show ?thesis
    by blast
qed

theorem closed_form_result_witness:
  "\<exists>A B cout Result.
     init_matrices = Some (A, B) \<and>
     MatrixMultiply 2
       \<lparr>device = Some ''emulator'', junk_a = (\<lambda>i j. qNaN), junk_b = (\<lambda>i j. one_f),
        junk_tmp = (\<lambda>i j. zero_f), junk_res = (\<lambda>p. qNaN)\<rparr>
       A B (replicate kNumElements zero_f) = Inr (cout, Result) \<and>
     Result ! (3 * kNumCols + 3) = float_of_size_t (3 * 3 + 1) \<and>
     \<not> fneq (Result ! (3 * kNumCols + 3)) (float_of_size_t (3 * 3 + 1))"
  by (rule closed_form_result) (simp_all add: kNumRows_def kNumCols_def)

section \<open>The correctness check\<close>

lemma check_body_step:
  assumes "i * kNumCols + j < length r1" and "i * kNumCols + j < length r2"
  shows "check_body r1 r2 i j (cout, passed) =
     Some (if mismatch r1 r2 i j then (cout @ [''FAILED: The results are incorrect''], False)
           else (cout, passed))"
  using assms by (simp add: check_body_def mismatch_def Let_def)

lemma check_for_each:
  assumes "\<forall>c \<in> set cs. case f c of (i, j) \<Rightarrow>
      i * kNumCols + j < length r1 \<and> i * kNumCols + j < length r2"
  shows "for_each cs (\<lambda>c. case f c of (i, j) \<Rightarrow> check_body r1 r2 i j) (cout, passed) =
     Some (cout @ replicate (length (filter (\<lambda>(i, j). mismatch r1 r2 i j) (map f cs)))
                    ''FAILED: The results are incorrect'',
           passed \<and> (\<forall>(i, j) \<in> set (map f cs). \<not> mismatch r1 r2 i j))"
  using assms
proof (induction cs arbitrary: cout passed)
  case Nil
  show ?case by simp
next
  case (Cons c cs)
  obtain i j where c: "f c = (i, j)"
    by (cases "f c")
  with Cons.prems have "i * kNumCols + j < length r1" "i * kNumCols + j < length r2"
    by auto
  then have step: "check_body r1 r2 i j (cout, passed) =
     Some (if mismatch r1 r2 i j then (cout @ [''FAILED: The results are incorrect''], False)
           else (cout, passed))"
    by (rule check_body_step)
  from Cons.prems have rest: "\<forall>c \<in> set cs. case f c of (i, j) \<Rightarrow>
      i * kNumCols + j < length r1 \<and> i * kNumCols + j < length r2"
    by simp
  show ?case
    by (simp add: c step Cons.IH [OF rest] replicate_app_Cons_same)
qed

lemma positions_16:
  "map (delinearize kNumCols) [0..<kNumRows * kNumCols] = List.product [0..<kNumRows] [0..<kNumCols]"
  by (simp add: kNumRows_def kNumCols_def pairs_16 upt_4)

lemma check_loop:
  assumes "length r1 = kNumElements" and "length r2 = kNumElements"
  shows "nested_loop kNumRows kNumCols (check_body r1 r2) ([], True) =
     Some (replicate (length (filter (\<lambda>(i, j). mismatch r1 r2 i j)
                        (List.product [0..<kNumRows] [0..<kNumCols])))
             ''FAILED: The results are incorrect'',
           \<forall>i < kNumRows. \<forall>j < kNumCols. \<not> mismatch r1 r2 i j)"
proof -
  have bounds: "\<forall>c \<in> set [0..<kNumRows * kNumCols]. case delinearize kNumCols c of (i, j) \<Rightarrow>
      i * kNumCols + j < length r1 \<and> i * kNumCols + j < length r2"
    using assms by (simp add: delinearize_def kNumElements_def)
  have "nested_loop kNumRows kNumCols (check_body r1 r2) ([], True)
      = coalesced_loop kNumRows kNumCols (check_body r1 r2) ([], True)"
    by (simp only: coalesced_loop_nested_loop)
  also have "\<dots> = Some ([] @ replicate (length (filter (\<lambda>(i, j). mismatch r1 r2 i j)
                        (map (delinearize kNumCols) [0..<kNumRows * kNumCols])))
             ''FAILED: The results are incorrect'',
           True \<and> (\<forall>(i, j) \<in> set (map (delinearize kNumCols) [0..<kNumRows * kNumCols]).
                    \<not> mismatch r1 r2 i j))"
    unfolding coalesced_loop_def by (rule check_for_each [OF bounds])
  also have "\<dots> = Some (replicate (length (filter (\<lambda>(i, j). mismatch r1 r2 i j)
                        (List.product [0..<kNumRows] [0..<kNumCols])))
             ''FAILED: The results are incorrect'',
           \<forall>i < kNumRows. \<forall>j < kNumCols. \<not> mismatch r1 r2 i j)"
    unfolding positions_16 by auto
  finally show ?thesis .
qed

lemma no_mismatch_filter:
  "(\<forall>i < kNumRows. \<forall>j < kNumCols. \<not> mismatch r1 r2 i j) \<longleftrightarrow>
     length (filter (\<lambda>(i, j). mismatch r1 r2 i j) (List.product [0..<kNumRows] [0..<kNumCols])) = 0"
  by (auto simp add: filter_empty_conv)

text \<open>
  C6. On two result vectors of sixteen elements the check returns; the exit code is 0
  exactly when every element of both vectors compares equal to \<open>i * j + 1\<close>, and then
  the one line printed is \<^verbatim>\<open>PASSED: The results are correct\<close>; otherwise the exit
  code is -1, that line is not printed and the last line is \<^verbatim>\<open>FAILED\<close>.
\<close>

theorem exit_code_reflects_check:
  assumes "length r1 = kNumElements" and "length r2 = kNumElements"
  shows "\<exists>cout code. correctness_check r1 r2 = Inr (cout, code) \<and>
     (code = 0 \<longleftrightarrow>
        (\<forall>i < kNumRows. \<forall>j < kNumCols.
           \<not> fneq (r1 ! (i * kNumCols + j)) (float_of_size_t (i * j + 1)) \<and>
           \<not> fneq (r2 ! (i * kNumCols + j)) (float_of_size_t (i * j + 1)))) \<and>
     (code = 0 \<longrightarrow> cout = [''PASSED: The results are correct'']) \<and>
     (code \<noteq> 0 \<longrightarrow> code = - 1 \<and> ''PASSED: The results are correct'' \<notin> set cout \<and>
        last cout = ''FAILED'')"
  by (simp add: correctness_check_def check_loop [OF assms] mismatch_def)

theorem exit_code_reflects_check_witness:
  "correctness_check
     [one_f, one_f, one_f, one_f,
      one_f, float_of_size_t 2, float_of_size_t 3, float_of_size_t 4,
      one_f, float_of_size_t 3, float_of_size_t 5, float_of_size_t 7,
      one_f, float_of_size_t 4, float_of_size_t 7, float_of_size_t 10]
     [one_f, one_f, one_f, one_f,
      one_f, float_of_size_t 2, float_of_size_t 3, float_of_size_t 4,
      one_f, float_of_size_t 3, float_of_size_t 5, float_of_size_t 7,
      one_f, float_of_size_t 4, float_of_size_t 7, float_of_size_t 10]
   = Inr ([''PASSED: The results are correct''], 0)
   \<and> (\<exists>cout. correctness_check
     [one_f, one_f, one_f, one_f,
      one_f, float_of_size_t 2, float_of_size_t 3, float_of_size_t 4,
      one_f, float_of_size_t 3, float_of_size_t 5, float_of_size_t 7,
      one_f, float_of_size_t 4, float_of_size_t 7, float_of_size_t 10]
     (replicate 16 qNaN)
   = Inr (cout, - 1) \<and> last cout = ''FAILED'')"
proof -
  let ?B = "[one_f, one_f, one_f, one_f,
      one_f, float_of_size_t 2, float_of_size_t 3, float_of_size_t 4,
      one_f, float_of_size_t 3, float_of_size_t 5, float_of_size_t 7,
      one_f, float_of_size_t 4, float_of_size_t 7, float_of_size_t 10]"
  have len: "length ?B = kNumElements" "length (replicate 16 qNaN) = kNumElements"
    by (simp_all add: kNumElements_16)
  have good: "\<forall>i < kNumRows. \<forall>j < kNumCols.
      \<not> fneq (?B ! (i * kNumCols + j)) (float_of_size_t (i * j + 1)) \<and>
      \<not> fneq (?B ! (i * kNumCols + j)) (float_of_size_t (i * j + 1))"
  proof (intro allI impI)
    fix i j assume "i < kNumRows" "j < kNumCols"
    then have "i = 0 \<or> i = 1 \<or> i = 2 \<or> i = 3" and "j = 0 \<or> j = 1 \<or> j = 2 \<or> j = 3"
      unfolding kNumRows_def kNumCols_def by arith+
    then show "\<not> fneq (?B ! (i * kNumCols + j)) (float_of_size_t (i * j + 1)) \<and>
      \<not> fneq (?B ! (i * kNumCols + j)) (float_of_size_t (i * j + 1))"
      by (elim disjE)
        (simp_all add: kNumCols_def float_of_size_t_Suc_0 fneq_values numeral_2_eq_2 [symmetric])
  qed
  have bad: "\<not> (\<forall>i < kNumRows. \<forall>j < kNumCols.
      \<not> fneq (?B ! (i * kNumCols + j)) (float_of_size_t (i * j + 1)) \<and>
      \<not> fneq (replicate 16 qNaN ! (i * kNumCols + j)) (float_of_size_t (i * j + 1)))"
  proof
    assume "\<forall>i < kNumRows. \<forall>j < kNumCols.
      \<not> fneq (?B ! (i * kNumCols + j)) (float_of_size_t (i * j + 1)) \<and>
      \<not> fneq (replicate 16 qNaN ! (i * kNumCols + j)) (float_of_size_t (i * j + 1))"
    moreover have "0 < kNumRows" "0 < kNumCols"
      by (simp_all add: kNumRows_def kNumCols_def)
    ultimately have "\<not> fneq (replicate 16 qNaN ! (0 * kNumCols + 0)) (float_of_size_t (0 * 0 + 1))"
      by blast
    then show False
      by (simp add: fneq_qNaN)
  qed
  from exit_code_reflects_check [OF len(1) len(1)] good
  have pass: "correctness_check ?B ?B = Inr ([''PASSED: The results are correct''], 0)"
    by auto
  from exit_code_reflects_check [OF len(1) len(2)] bad
  have fail: "\<exists>cout. correctness_check ?B (replicate 16 qNaN) = Inr (cout, - 1) \<and> last cout = ''FAILED''"
    by auto
  from pass fail show ?thesis
    by (simp only: simp_thms)
qed

text \<open>
  C7. A mismatch does not end the check: on two result vectors of sixteen elements the
  check prints one line \<^verbatim>\<open>FAILED: The results are incorrect\<close> for each of the sixteen
  positions that mismatches, however many there are, and only then the final line.
\<close>

theorem check_examines_every_position:
  assumes "length r1 = kNumElements" and "length r2 = kNumElements"
  shows "\<exists>n code.
     n = length (filter (\<lambda>(i, j). fneq (r1 ! (i * kNumCols + j)) (float_of_size_t (i * j + 1)) \<or>
                                   fneq (r2 ! (i * kNumCols + j)) (float_of_size_t (i * j + 1)))
                   (List.product [0..<kNumRows] [0..<kNumCols])) \<and>
     correctness_check r1 r2 =
       Inr (replicate n ''FAILED: The results are incorrect'' @
              [if n = 0 then ''PASSED: The results are correct'' else ''FAILED''], code)"
proof -
  have "(\<lambda>(i, j). fneq (r1 ! (i * kNumCols + j)) (float_of_size_t (i * j + 1)) \<or>
                   fneq (r2 ! (i * kNumCols + j)) (float_of_size_t (i * j + 1)))
      = (\<lambda>(i, j). mismatch r1 r2 i j)"
    by (simp add: mismatch_def)
  then show ?thesis
    by (simp add: correctness_check_def check_loop [OF assms] no_mismatch_filter)
qed

theorem check_examines_every_position_witness:
  "\<exists>code. correctness_check
     [one_f, one_f, one_f, one_f,
      one_f, float_of_size_t 2, float_of_size_t 3, float_of_size_t 4,
      one_f, float_of_size_t 3, float_of_size_t 5, float_of_size_t 7,
      one_f, float_of_size_t 4, float_of_size_t 7, float_of_size_t 10]
     [one_f, one_f, one_f, one_f,
      one_f, qNaN, float_of_size_t 3, float_of_size_t 4,
      one_f, float_of_size_t 3, float_of_size_t 7, float_of_size_t 7,
      one_f, float_of_size_t 4, float_of_size_t 7, float_of_size_t 10]
   = Inr ([''FAILED: The results are incorrect'', ''FAILED: The results are incorrect'',
           ''FAILED''], code)"
proof -
  let ?B = "[one_f, one_f, one_f, one_f,
      one_f, float_of_size_t 2, float_of_size_t 3, float_of_size_t 4,
      one_f, float_of_size_t 3, float_of_size_t 5, float_of_size_t 7,
      one_f, float_of_size_t 4, float_of_size_t 7, float_of_size_t 10]"
  let ?C = "[one_f, one_f, one_f, one_f,
      one_f, qNaN, float_of_size_t 3, float_of_size_t 4,
      one_f, float_of_size_t 3, float_of_size_t 7, float_of_size_t 7,
      one_f, float_of_size_t 4, float_of_size_t 7, float_of_size_t 10]"
  have len: "length ?B = kNumElements" "length ?C = kNumElements"
    by (simp_all add: kNumElements_16)
  have differ: "fneq (float_of_size_t 7) (float_of_size_t 5)"
    unfolding float_of_size_t_values by (simp add: fneq_def float_fields)
  have count: "length (filter (\<lambda>(i, j). fneq (?B ! (i * kNumCols + j)) (float_of_size_t (i * j + 1)) \<or>
                                   fneq (?C ! (i * kNumCols + j)) (float_of_size_t (i * j + 1)))
                   (List.product [0..<kNumRows] [0..<kNumCols])) = 2"
    by (simp add: kNumRows_def kNumCols_def upt_4 fneq_values fneq_qNaN differ
        float_of_size_t_Suc_0 numeral_2_eq_2 [symmetric])
  from check_examines_every_position [OF len] show ?thesis
    unfolding count by (auto simp add: numeral_2_eq_2)
qed

subsection \<open>The program from start to end\<close>

lemma pattern_matches:
  assumes "i < kNumRows" and "j < kNumCols"
  shows "\<not> mismatch
      [one_f, one_f, one_f, one_f,
       one_f, float_of_size_t 2, float_of_size_t 3, float_of_size_t 4,
       one_f, float_of_size_t 3, float_of_size_t 5, float_of_size_t 7,
       one_f, float_of_size_t 4, float_of_size_t 7, float_of_size_t 10]
      [one_f, one_f, one_f, one_f,
       one_f, float_of_size_t 2, float_of_size_t 3, float_of_size_t 4,
       one_f, float_of_size_t 3, float_of_size_t 5, float_of_size_t 7,
       one_f, float_of_size_t 4, float_of_size_t 7, float_of_size_t 10] i j"
proof -
  from assms have "i = 0 \<or> i = 1 \<or> i = 2 \<or> i = 3" and "j = 0 \<or> j = 1 \<or> j = 2 \<or> j = 3"
    unfolding kNumRows_def kNumCols_def by arith+
  then show ?thesis
    by (elim disjE)
      (simp_all add: mismatch_def kNumCols_def float_of_size_t_Suc_0 fneq_values
        numeral_2_eq_2 [symmetric])
qed

text \<open>
  The whole program: with a device for each invocation, \<open>main\<close> prints the two device
  lines and \<^verbatim>\<open>PASSED: The results are correct\<close> and returns 0; without a device for
  the first invocation it ends in \<^verbatim>\<open>std::terminate\<close>.
\<close>

lemma main_passes:
  assumes "device env1 = Some name1" and "device env2 = Some name2"
  shows "main env1 env2 =
     Inr ([''Running on device: '' @ name1, ''Running on device: '' @ name2,
           ''PASSED: The results are correct''], 0)"
  using assms
  by (simp add: main_def init_matrices_eq MatrixMultiply_run kNumElements_16 product_init
      correctness_check_def check_loop pattern_matches)

lemma main_terminates:
  assumes "device env1 = None"
  shows "main env1 env2 = Inl Terminate"
  using assms by (simp add: main_def init_matrices_eq MatrixMultiply_def)

section \<open>Exactness of the checked values\<close>

lemma uint_positive: "w \<noteq> 0 \<Longrightarrow> 1 \<le> uint w"
  using uint_0_iff [of w] unsigned_greater_eq [of w, where ?'a = int] by arith

lemma scale_lower: "- 149 \<le> scale x"
  by (simp add: scale_def uint_positive)

lemma represents_scaled:
  assumes "represents x n"
  shows "significand x * 2 ^ nat (scale x + 149) = n * 2 ^ 149"
proof (cases "0 \<le> scale x")
  case True
  with assms have "significand x * 2 ^ nat (scale x) = n"
    by (simp add: represents_def)
  moreover from True have "nat (scale x + 149) = nat (scale x) + 149"
    by simp
  ultimately show ?thesis
    by (simp add: power_add)
next
  case False
  with assms have sig: "significand x = n * 2 ^ nat (- scale x)"
    by (simp add: represents_def)
  from False scale_lower [of x] have "nat (- scale x) + nat (scale x + 149) = 149"
    by simp
  then have "(2::nat) ^ nat (- scale x) * 2 ^ nat (scale x + 149) = 2 ^ 149"
    by (simp only: power_add [symmetric])
  with sig show ?thesis
    by (simp add: mult.assoc)
qed

lemma represents_functional:
  assumes "represents x m" and "represents x n"
  shows "m = n"
  using represents_scaled [OF assms(1)] represents_scaled [OF assms(2)] by simp

lemma binade_unique:
  fixes p q :: nat
  assumes p: "2 ^ 23 \<le> p" "p < 2 ^ 24" and q: "2 ^ 23 \<le> q" "q < 2 ^ 24"
    and eq: "p * 2 ^ c = q * 2 ^ d"
  shows "c = d \<and> p = q"
proof -
  have less: False if "c < d" and e: "p' * 2 ^ c = q' * 2 ^ d"
    and "p' < 2 ^ 24" and "2 ^ 23 \<le> q'" for c d and p' q' :: nat
  proof -
    from \<open>c < d\<close> obtain k where d: "d = c + Suc k"
      using less_iff_Suc_add by auto
    from e have "p' * 2 ^ c = (q' * 2 ^ Suc k) * 2 ^ c"
      by (simp add: d power_add mult_ac)
    then have "p' = q' * 2 ^ Suc k"
      by simp
    moreover have "q' * 2 \<le> q' * 2 ^ Suc k"
      by simp
    ultimately have "q' * 2 \<le> p'"
      by simp
    with \<open>p' < 2 ^ 24\<close> \<open>2 ^ 23 \<le> q'\<close> show False
      by simp
  qed
  have "\<not> c < d"
    using less [of c d p q] eq p q by blast
  moreover have "\<not> d < c"
    using less [of d c q p] eq [symmetric] p q by blast
  ultimately have "c = d"
    by simp
  with eq show ?thesis
    by simp
qed

lemma represents_unique:
  assumes x: "represents x n" and y: "represents y n"
  shows "x = y"
proof -
  obtain ex fx where xf: "x = Float False ex fx"
    using x by (cases x) (simp add: represents_def)
  obtain ey fy where yf: "y = Float False ey fy"
    using y by (cases y) (simp add: represents_def)
  from represents_scaled [OF x] represents_scaled [OF y]
  have eq: "significand x * 2 ^ nat (scale x + 149) = significand y * 2 ^ nat (scale y + 149)"
    by simp
  have small: "unat fx < 2 ^ 23" "unat fy < 2 ^ 23"
    using unsigned_less [of fx, where ?'a = nat] unsigned_less [of fy, where ?'a = nat]
    by simp_all
  consider (sub) "ex = 0" "ey = 0" | (xsub) "ex = 0" "ey \<noteq> 0"
    | (ysub) "ex \<noteq> 0" "ey = 0" | (norm) "ex \<noteq> 0" "ey \<noteq> 0"
    by blast
  then show ?thesis
  proof cases
    case sub
    with eq have "unat fx = unat fy"
      by (simp add: xf yf significand_def scale_def)
    with sub show ?thesis
      by (simp add: xf yf word_unat_eq_iff)
  next
    case xsub
    from xsub have sx: "scale x + 149 = 0" "significand x = unat fx"
      by (simp_all add: xf scale_def significand_def)
    from xsub have "unat ey \<noteq> 0"
      by (simp add: unat_0_iff)
    then have sy: "significand y = 2 ^ 23 + unat fy" "0 \<le> scale y + 149"
      using xsub scale_lower [of y] by (simp_all add: yf significand_def)
    from eq sx sy have "unat fx = (2 ^ 23 + unat fy) * 2 ^ nat (scale y + 149)"
      by simp
    moreover have "(2::nat) ^ 23 * 1 \<le> (2 ^ 23 + unat fy) * 2 ^ nat (scale y + 149)"
      by (rule mult_le_mono) simp_all
    ultimately have "2 ^ 23 \<le> unat fx"
      by (simp only: mult_1_right)
    with small show ?thesis
      by simp
  next
    case ysub
    from ysub have sy: "scale y + 149 = 0" "significand y = unat fy"
      by (simp_all add: yf scale_def significand_def)
    from ysub have "unat ex \<noteq> 0"
      by (simp add: unat_0_iff)
    then have sx: "significand x = 2 ^ 23 + unat fx" "0 \<le> scale x + 149"
      using ysub scale_lower [of x] by (simp_all add: xf significand_def)
    from eq sx sy have "unat fy = (2 ^ 23 + unat fx) * 2 ^ nat (scale x + 149)"
      by simp
    moreover have "(2::nat) ^ 23 * 1 \<le> (2 ^ 23 + unat fx) * 2 ^ nat (scale x + 149)"
      by (rule mult_le_mono) simp_all
    ultimately have "2 ^ 23 \<le> unat fy"
      by (simp only: mult_1_right)
    with small show ?thesis
      by simp
  next
    case norm
    then have nz: "unat ex \<noteq> 0" "unat ey \<noteq> 0"
      by (simp_all add: unat_0_iff)
    from norm have sx: "significand x = 2 ^ 23 + unat fx" "scale x = int (unat ex) - 150"
      and sy: "significand y = 2 ^ 23 + unat fy" "scale y = int (unat ey) - 150"
      by (simp_all add: xf yf scale_def significand_def)
    from small have "2 ^ 23 \<le> significand x" "significand x < 2 ^ 24"
      "2 ^ 23 \<le> significand y" "significand y < 2 ^ 24"
      by (simp_all add: sx sy)
    from binade_unique [OF this eq]
    have same: "nat (scale x + 149) = nat (scale y + 149)" "significand x = significand y"
      by simp_all
    from same(1) have "nat (int (unat ex) - 150 + 149) = nat (int (unat ey) - 150 + 149)"
      by (simp only: sx sy)
    with nz have "unat ex = unat ey"
      by arith
    moreover from same(2) have "unat fx = unat fy"
      by (simp add: sx sy)
    ultimately show ?thesis
      by (simp add: xf yf word_unat_eq_iff)
  qed
qed

lemma fneq_represents:
  assumes "represents x m" and "represents y n"
  shows "fneq x y \<longleftrightarrow> m \<noteq> n"
proof -
  from assms have finite: "\<not> is_nan x" "\<not> is_nan y"
    by (simp_all add: represents_def is_nan_def)
  show ?thesis
  proof (cases "m = n")
    case True
    with assms have "x = y"
      by (simp add: represents_unique)
    with finite True show ?thesis
      by (simp add: fneq_def)
  next
    case False
    with assms have "x \<noteq> y"
      using represents_functional by blast
    moreover have "\<not> (is_zero x \<and> is_zero y)"
    proof
      assume z: "is_zero x \<and> is_zero y"
      from assms have "\<not> fsign x" "\<not> fsign y"
        by (simp_all add: represents_def)
      with z have "x = y"
        by (cases x, cases y) (simp add: is_zero_def)
      with \<open>x \<noteq> y\<close> show False ..
    qed
    ultimately show ?thesis
      using False by (simp add: fneq_def)
  qed
qed


lemma upt_small: "[0..<1] = [0]" "[0..<2] = [0, 1]" "[0..<3] = [0, 1, 2]"
  by (simp_all add: upt_rec)

lemma represents_Suc_0: "represents one_f (Suc 0)"
  using represents_values(2) by simp

lemma sum_small:
  "(\<Sum>m<2. f m) = f 0 + f 1"
  "(\<Sum>m<3. f m) = f 0 + f 1 + f 2"
  "(\<Sum>m<4. f m) = f 0 + f 1 + f 2 + f 3"
  for f :: "nat \<Rightarrow> nat"
  by (simp_all add: eval_nat_numeral)


text \<open>
  C10. Every value that reaches the final comparison is a natural number of at most 10,
  held exactly in its \<^verbatim>\<open>float\<close>: the elements of the two input matrices, each product
  \<open>a[i][m] * b[m][j]\<close>, each partial sum of the accumulation, the element of the result of
  either kernel, and the expected value \<open>i * j + 1\<close> after its conversion. The comparison
  \<^verbatim>\<open>!=\<close> on the result and the expected value is therefore the comparison of the two
  natural numbers.
\<close>

theorem checked_values_exact:
  assumes "i < kNumRows" and "j < kNumCols" and "n \<le> kNumCols"
  shows "\<exists>A B. init_matrices = Some (A, B) \<and>
     (\<forall>m < kNumCols.
        represents (A ! (i * kNumCols + m)) (if i = m then 1 else 0) \<and>
        represents (B ! (m * kNumCols + j)) (m * j + 1) \<and> m * j + 1 \<le> 10 \<and>
        represents (fmul (A ! (i * kNumCols + m)) (B ! (m * kNumCols + j)))
          ((if i = m then 1 else 0) * (m * j + 1)) \<and>
        (if i = m then 1 else 0) * (m * j + 1) \<le> 10) \<and>
     represents
       (fold (\<lambda>k sum. fadd sum (fmul (A ! (i * kNumCols + k)) (B ! (k * kNumCols + j))))
          [0..<n] zero_f)
       (\<Sum>m<n. (if i = m then 1 else 0) * (m * j + 1)) \<and>
     (\<Sum>m<n. (if i = m then 1 else 0) * (m * j + 1)) \<le> 10 \<and>
     represents (float_of_size_t (i * j + 1)) (i * j + 1) \<and> i * j + 1 \<le> 10 \<and>
     (\<forall>k env name. device env = Some name \<and> (k = 1 \<or> k = 2) \<longrightarrow>
        (\<exists>cout Result.
           MatrixMultiply k env A B (replicate kNumElements zero_f) = Inr (cout, Result) \<and>
           represents (Result ! (i * kNumCols + j))
             (\<Sum>m<kNumCols. (if i = m then 1 else 0) * (m * j + 1)) \<and>
           (fneq (Result ! (i * kNumCols + j)) (float_of_size_t (i * j + 1)) \<longleftrightarrow>
              (\<Sum>m<kNumCols. (if i = m then 1 else 0) * (m * j + 1)) \<noteq> i * j + 1)))"
proof -
  let ?A = "[one_f, zero_f, zero_f, zero_f,
       zero_f, one_f, zero_f, zero_f,
       zero_f, zero_f, one_f, zero_f,
       zero_f, zero_f, zero_f, one_f]"
  let ?B = "[one_f, one_f, one_f, one_f,
       one_f, float_of_size_t 2, float_of_size_t 3, float_of_size_t 4,
       one_f, float_of_size_t 3, float_of_size_t 5, float_of_size_t 7,
       one_f, float_of_size_t 4, float_of_size_t 7, float_of_size_t 10]"
  from assms have ij: "i = 0 \<or> i = 1 \<or> i = 2 \<or> i = 3" "j = 0 \<or> j = 1 \<or> j = 2 \<or> j = 3"
    unfolding kNumRows_def kNumCols_def by arith+
  have terms: "represents (?A ! (i * kNumCols + m)) (if i = m then 1 else 0) \<and>
        represents (?B ! (m * kNumCols + j)) (m * j + 1) \<and> m * j + 1 \<le> 10 \<and>
        represents (fmul (?A ! (i * kNumCols + m)) (?B ! (m * kNumCols + j)))
          ((if i = m then 1 else 0) * (m * j + 1)) \<and>
        (if i = m then 1 else 0) * (m * j + 1) \<le> 10" if "m < kNumCols" for m
  proof -
    from that have "m = 0 \<or> m = 1 \<or> m = 2 \<or> m = 3"
      unfolding kNumCols_def by arith
    with ij show ?thesis
      by (elim disjE)
        (simp_all add: kNumCols_def float_table represents_values represents_Suc_0
          numeral_2_eq_2 [symmetric])
  qed
  have sums: "represents
       (fold (\<lambda>k sum. fadd sum (fmul (?A ! (i * kNumCols + k)) (?B ! (k * kNumCols + j))))
          [0..<n'] zero_f)
       (\<Sum>m<n'. (if i = m then 1 else 0) * (m * j + 1)) \<and>
     (\<Sum>m<n'. (if i = m then 1 else 0) * (m * j + 1)) \<le> 10" if "n' \<le> kNumCols" for n'
  proof -
    from that have "n' = 0 \<or> n' = 1 \<or> n' = 2 \<or> n' = 3 \<or> n' = 4"
      unfolding kNumCols_def by arith
    with ij show ?thesis
      by (elim disjE)
        (simp_all add: kNumCols_def sum_small upt_small upt_4 float_table represents_values
          represents_Suc_0 numeral_2_eq_2 [symmetric])
  qed
  have expected: "represents (float_of_size_t (i * j + 1)) (i * j + 1) \<and> i * j + 1 \<le> 10"
    using ij
    by (elim disjE)
      (simp_all add: represents_values represents_Suc_0 float_of_size_t_Suc_0
        numeral_2_eq_2 [symmetric])
  have init: "init_matrices = Some (?A, ?B)"
    by (rule init_matrices_eq)
  from terms have all_terms: "\<forall>m < kNumCols.
        represents (?A ! (i * kNumCols + m)) (if i = m then 1 else 0) \<and>
        represents (?B ! (m * kNumCols + j)) (m * j + 1) \<and> m * j + 1 \<le> 10 \<and>
        represents (fmul (?A ! (i * kNumCols + m)) (?B ! (m * kNumCols + j)))
          ((if i = m then 1 else 0) * (m * j + 1)) \<and>
        (if i = m then 1 else 0) * (m * j + 1) \<le> 10"
    by (intro allI impI)
  have result: "represents (product ?A ?B ! (i * kNumCols + j))
      (\<Sum>m<kNumCols. (if i = m then 1 else 0) * (m * j + 1))"
    using sums [of kNumCols] assms by (simp add: product_nth dot_def)
  from fneq_represents [OF result] expected
  have compare: "fneq (product ?A ?B ! (i * kNumCols + j)) (float_of_size_t (i * j + 1)) \<longleftrightarrow>
      (\<Sum>m<kNumCols. (if i = m then 1 else 0) * (m * j + 1)) \<noteq> i * j + 1"
    by blast
  have runs: "\<forall>k env name. device env = Some name \<and> (k = 1 \<or> k = 2) \<longrightarrow>
        (\<exists>cout Result.
           MatrixMultiply k env ?A ?B (replicate kNumElements zero_f) = Inr (cout, Result) \<and>
           represents (Result ! (i * kNumCols + j))
             (\<Sum>m<kNumCols. (if i = m then 1 else 0) * (m * j + 1)) \<and>
           (fneq (Result ! (i * kNumCols + j)) (float_of_size_t (i * j + 1)) \<longleftrightarrow>
              (\<Sum>m<kNumCols. (if i = m then 1 else 0) * (m * j + 1)) \<noteq> i * j + 1))"
  proof (intro allI impI)
    fix k :: nat and env :: backend and name :: string
    assume "device env = Some name \<and> (k = 1 \<or> k = 2)"
    then have "MatrixMultiply k env ?A ?B (replicate kNumElements zero_f)
        = Inr ([''Running on device: '' @ name], product ?A ?B)"
      by (simp add: MatrixMultiply_run kNumElements_16)
    with result compare show "\<exists>cout Result.
           MatrixMultiply k env ?A ?B (replicate kNumElements zero_f) = Inr (cout, Result) \<and>
           represents (Result ! (i * kNumCols + j))
             (\<Sum>m<kNumCols. (if i = m then 1 else 0) * (m * j + 1)) \<and>
           (fneq (Result ! (i * kNumCols + j)) (float_of_size_t (i * j + 1)) \<longleftrightarrow>
              (\<Sum>m<kNumCols. (if i = m then 1 else 0) * (m * j + 1)) \<noteq> i * j + 1)"
      by blast
  qed
  from init all_terms sums [OF assms(3)] expected runs show ?thesis
    by (intro exI [of _ ?A] exI [of _ ?B]) (simp only: simp_thms)
qed

theorem checked_values_exact_witness:
  "\<exists>A B. init_matrices = Some (A, B) \<and>
     represents (A ! (2 * kNumCols + 2)) 1 \<and>
     represents (B ! (2 * kNumCols + 3)) 7 \<and>
     represents (fmul (A ! (2 * kNumCols + 2)) (B ! (2 * kNumCols + 3))) 7 \<and>
     represents
       (fold (\<lambda>k sum. fadd sum (fmul (A ! (2 * kNumCols + k)) (B ! (k * kNumCols + 3))))
          [0..<3] zero_f) 7 \<and>
     represents (float_of_size_t 7) 7 \<and>
     (\<exists>cout Result.
        MatrixMultiply 2
          \<lparr>device = Some ''emulator'', junk_a = (\<lambda>i j. qNaN), junk_b = (\<lambda>i j. one_f),
           junk_tmp = (\<lambda>i j. zero_f), junk_res = (\<lambda>p. qNaN)\<rparr>
          A B (replicate kNumElements zero_f) = Inr (cout, Result) \<and>
        represents (Result ! (2 * kNumCols + 3)) 7 \<and>
        \<not> fneq (Result ! (2 * kNumCols + 3)) (float_of_size_t 7))"
proof -
  have "2 < kNumRows" "3 < kNumCols" "3 \<le> kNumCols"
    by (simp_all add: kNumRows_def kNumCols_def)
  from checked_values_exact [OF this]
  obtain A B where init: "init_matrices = Some (A, B)"
    and terms: "\<forall>m < kNumCols.
        represents (A ! (2 * kNumCols + m)) (if 2 = m then 1 else 0) \<and>
        represents (B ! (m * kNumCols + 3)) (m * 3 + 1) \<and> m * 3 + 1 \<le> 10 \<and>
        represents (fmul (A ! (2 * kNumCols + m)) (B ! (m * kNumCols + 3)))
          ((if 2 = m then 1 else 0) * (m * 3 + 1)) \<and>
        (if 2 = m then 1 else 0) * (m * 3 + 1) \<le> 10"
    and sums: "represents
       (fold (\<lambda>k sum. fadd sum (fmul (A ! (2 * kNumCols + k)) (B ! (k * kNumCols + 3))))
          [0..<3] zero_f)
       (\<Sum>m<3. (if 2 = m then 1 else 0) * (m * 3 + 1))"
    and expected: "represents (float_of_size_t (2 * 3 + 1)) (2 * 3 + 1)"
    and runs: "\<forall>k env name. device env = Some name \<and> (k = 1 \<or> k = 2) \<longrightarrow>
        (\<exists>cout Result.
           MatrixMultiply k env A B (replicate kNumElements zero_f) = Inr (cout, Result) \<and>
           represents (Result ! (2 * kNumCols + 3))
             (\<Sum>m<kNumCols. (if 2 = m then 1 else 0) * (m * 3 + 1)) \<and>
           (fneq (Result ! (2 * kNumCols + 3)) (float_of_size_t (2 * 3 + 1)) \<longleftrightarrow>
              (\<Sum>m<kNumCols. (if 2 = m then 1 else 0) * (m * 3 + 1)) \<noteq> 2 * 3 + 1))"
    by blast
  have "(2::nat) < kNumCols"
    by (simp add: kNumCols_def)
  with terms have t: "represents (A ! (2 * kNumCols + 2)) 1"
    "represents (B ! (2 * kNumCols + 3)) 7"
    "represents (fmul (A ! (2 * kNumCols + 2)) (B ! (2 * kNumCols + 3))) 7"
    by fastforce+
  from sums have s: "represents
       (fold (\<lambda>k sum. fadd sum (fmul (A ! (2 * kNumCols + k)) (B ! (k * kNumCols + 3))))
          [0..<3] zero_f) 7"
    by (simp add: sum_small)
  from expected have e: "represents (float_of_size_t 7) 7"
    by simp
  from runs have "\<exists>cout Result.
        MatrixMultiply 2
          \<lparr>device = Some ''emulator'', junk_a = (\<lambda>i j. qNaN), junk_b = (\<lambda>i j. one_f),
           junk_tmp = (\<lambda>i j. zero_f), junk_res = (\<lambda>p. qNaN)\<rparr>
          A B (replicate kNumElements zero_f) = Inr (cout, Result) \<and>
        represents (Result ! (2 * kNumCols + 3))
             (\<Sum>m<kNumCols. (if 2 = m then 1 else 0) * (m * 3 + 1)) \<and>
           (fneq (Result ! (2 * kNumCols + 3)) (float_of_size_t (2 * 3 + 1)) \<longleftrightarrow>
              (\<Sum>m<kNumCols. (if 2 = m then 1 else 0) * (m * 3 + 1)) \<noteq> 2 * 3 + 1)"
    by simp
  then have r: "\<exists>cout Result.
        MatrixMultiply 2
          \<lparr>device = Some ''emulator'', junk_a = (\<lambda>i j. qNaN), junk_b = (\<lambda>i j. one_f),
           junk_tmp = (\<lambda>i j. zero_f), junk_res = (\<lambda>p. qNaN)\<rparr>
          A B (replicate kNumElements zero_f) = Inr (cout, Result) \<and>
        represents (Result ! (2 * kNumCols + 3)) 7 \<and>
        \<not> fneq (Result ! (2 * kNumCols + 3)) (float_of_size_t 7)"
    by (simp add: kNumCols_def sum_small)
  from init t s e r show ?thesis
    by blast
qed

end
